theory Spec2Isabelle
  imports Main "HOL-Library.AList"
begin

section \<open>The Proxmox cloud driver \<open>proxmox_v9x.py\<close>: data model\<close>

text \<open>
  The driver is a Python module of top-level functions that talk to the Proxmox REST API
  through \<open>_query\<close>, read the wall clock with \<open>time.time()\<close> and block in
  \<open>time.sleep\<close>. The embedding makes all three explicit:
  \<^item> the exceptions the code can raise are the values of \<open>exn\<close>, and a function that can
    raise returns \<open>exn + 'a\<close> (\<open>Inl\<close> the exception);
  \<^item> the remote side is a parameter \<open>env\<close>: a function that, from the requests sent so far,
    the time and the request, gives the outcome of the HTTP exchange and how long it took;
  \<^item> the \<open>world\<close> carries what the driver changes: the clock, the list of requests sent, the
    events fired and the \<open>ssh_host\<close> entry of \<open>__opts__\<close>;
  \<^item> the \<open>while time.time() < start_time + timeout\<close> loops have no bound of their own, so
    they are partial functions into \<open>option\<close>: \<open>None\<close> is a loop that never ends.

  Time is counted in milliseconds, as integers; \<open>seconds n\<close> is the value the source writes
  as \<open>n\<close>. An exchange takes the time the remote side says (a natural number), a sleep
  takes exactly its argument, and everything else takes no time. So the clock that
  \<open>time.time()\<close> reads is never set back: of two readings the later is not the smaller.

  The answers of the API are typed. An inventory entry always carries \<open>vmid\<close>, \<open>node\<close>,
  \<open>type\<close> and \<open>status\<close>; its \<open>name\<close> may be missing or \<open>None\<close>. Where the driver
  iterates over the inventory, reads the status or takes the items of a configuration
  and the remote side hands it the payload of another endpoint, the model raises what
  \<open>None\<close> raises at that place; the answer of the agent endpoint is read by its
  Python shape, whatever it is.
\<close>

datatype exn =
    SaltCloudSystemExit | SaltCloudNotFound | SaltCloudExecutionTimeout
  | HTTPError | RequestException
  | AttributeError | TypeError | KeyError | IndexError | ValueError | UnboundLocalError
  | SystemExit

text \<open>A dictionary entry that the code tests for presence and for \<open>None\<close>.\<close>

datatype 'a field = Missing | Null | Val 'a

text \<open>One entry of \<open>cluster/resources?type=vm\<close>: the keys the driver reads, which
  are \<open>name\<close>, \<open>vmid\<close>, \<open>node\<close>, \<open>type\<close> and \<open>status\<close>.\<close>

record resource =
  r_name :: "string field"
  r_vmid :: int
  r_node :: string
  r_type :: string
  r_status :: string

text \<open>The guest agent's interface report: \<open>ip-address-type\<close>, \<open>ip-address\<close>,
  \<open>hardware-address\<close> and \<open>ip-addresses\<close>, each of which may be absent.\<close>

record ip_entry =
  ip_address_type :: "string option"
  ip_address :: "string option"

record nic =
  hardware_address :: "string option"
  ip_addresses :: "ip_entry list option"

text \<open>The \<open>data\<close> member of a JSON answer, by endpoint: the resource list, the
  \<open>status/current\<close> dictionary (its \<open>status\<close> entry, if any), a configuration dictionary
  (in key order), the agent's dictionary (its \<open>result\<close> entry, if any), or a plain string
  (a task id, the next free id).\<close>

datatype payload =
    Resources "resource list"
  | Current "string option"
  | Config "(string \<times> string) list"
  | Agent "nic list option"
  | Scalar string

text \<open>Values of the loosely typed option dictionaries sent as request data.\<close>

datatype pval = PInt int | PStr string | PBool bool | PNone | PData payload

type_synonym kwargs = "(string \<times> pval) list"

datatype http_method = GET | POST | PUT | DELETE | RAWGET

text \<open>The paths the driver builds with f-strings, by pattern: node, type and vmid are
  the three holes of \<open>nodes/{node}/{type}/{vmid}/...\<close>. \<open>VmCloneText\<close> is the clone
  path of \<open>clone\<close> when the \<open>vmid\<close> it formats is not an integer but \<open>True\<close> or
  \<open>False\<close>, with the text that the f-string gives it.\<close>

datatype endpoint =
    ClusterResources
  | ClusterNextid
  | VmConfig string string int
  | VmStatusCurrent string string int
  | VmStatusAction string string int string
  | VmClone string string int
  | VmCloneText string string string
  | VmItem string string int
  | VmAgentInterfaces string string int

record request =
  meth :: http_method
  path :: endpoint
  data :: "kwargs option"

text \<open>What \<open>requests\<close> does with one request: a response with a success status and a
  JSON body (its \<open>data\<close> member, \<open>None\<close> when null), a response with status 500, a response
  with another error status, a \<open>RequestException\<close> other than \<open>HTTPError\<close> (no connection,
  the 10 second timeout), or an \<open>HTTPError\<close> raised by the call itself.\<close>

datatype reply =
    Answer "payload option"
  | Status500
  | StatusError
  | RequestFailed
  | HTTPErrorRaised

type_synonym remote = "request list \<Rightarrow> int \<Rightarrow> request \<Rightarrow> reply \<times> nat"

record world =
  clock :: int
  trace :: "request list"
  events :: "string list"
  ssh_host :: "string option"

type_synonym 'a run = "(exn + 'a) \<times> world"

definition seconds :: "int \<Rightarrow> int" where
  "seconds n = 1000 * n"

text \<open>Sequencing with exceptions: of total steps, and of steps that may not return.\<close>

definition and_then :: "'a run \<Rightarrow> ('a \<Rightarrow> world \<Rightarrow> 'b run) \<Rightarrow> 'b run" where
  "and_then m f = (case m of (Inl e, w) \<Rightarrow> (Inl e, w) | (Inr x, w) \<Rightarrow> f x w)"

definition seq :: "'a run option \<Rightarrow> ('a \<Rightarrow> world \<Rightarrow> 'b run option) \<Rightarrow> 'b run option" where
  "seq m f = (case m of None \<Rightarrow> None
                | Some (Inl e, w) \<Rightarrow> Some (Inl e, w)
                | Some (Inr x, w) \<Rightarrow> f x w)"

text \<open>\<open>time.sleep\<close>: a negative argument raises \<open>ValueError\<close>.\<close>

definition sleep :: "int \<Rightarrow> world \<Rightarrow> unit run" where
  "sleep d w = (if d < 0 then (Inl ValueError, w) else (Inr (), w\<lparr>clock := clock w + d\<rparr>))"

definition fire_event :: "string \<Rightarrow> world \<Rightarrow> world" where
  "fire_event tag w = w\<lparr>events := events w @ [tag]\<rparr>"

section \<open>\<open>_query\<close>\<close>

text \<open>One HTTP exchange: the request joins the trace and the clock moves on by the
  time the exchange took.\<close>

definition send :: "remote \<Rightarrow> request \<Rightarrow> world \<Rightarrow> reply \<times> world" where
  "send env rq w =
     (case env (trace w) (clock w) rq of
        (rp, d) \<Rightarrow> (rp, w\<lparr>clock := clock w + int d, trace := trace w @ [rq]\<rparr>))"

text \<open>
  \<open>_query\<close> for every method but \<open>RAWGET\<close>. For \<open>GET\<close> an \<open>HTTPError\<close> raised by
  \<open>requests.get\<close> is caught and printed, after which \<open>response\<close> is still \<open>None\<close> and
  \<open>response.raise_for_status()\<close> raises \<open>AttributeError\<close>; any other
  \<open>RequestException\<close> makes \<open>_query\<close> return \<open>None\<close>. For the other methods every
  \<open>RequestException\<close> gives \<open>None\<close>. A response with an error status raises \<open>HTTPError\<close>
  in \<open>raise_for_status\<close>; otherwise the result is the \<open>data\<close> member of the body.
\<close>

definition query :: "remote \<Rightarrow> http_method \<Rightarrow> endpoint \<Rightarrow> kwargs option \<Rightarrow> world \<Rightarrow> payload option run" where
  "query env m p d w =
     (case send env \<lparr>meth = m, path = p, data = d\<rparr> w of
        (rp, w') \<Rightarrow>
          (case rp of
             Answer x \<Rightarrow> (Inr x, w')
           | Status500 \<Rightarrow> (Inl HTTPError, w')
           | StatusError \<Rightarrow> (Inl HTTPError, w')
           | RequestFailed \<Rightarrow> (Inr None, w')
           | HTTPErrorRaised \<Rightarrow> (if m = GET then (Inl AttributeError, w') else (Inr None, w'))))"

text \<open>
  The \<open>RAWGET\<close> branch of \<open>_query\<close>, which has no \<open>try\<close>: it returns the response
  object unless the status is 500, and then the number 500. The result here is whether
  the value returned differs from 500.
\<close>

definition query_rawget :: "remote \<Rightarrow> endpoint \<Rightarrow> world \<Rightarrow> bool run" where
  "query_rawget env p w =
     (case send env \<lparr>meth = RAWGET, path = p, data = None\<rparr> w of
        (rp, w') \<Rightarrow>
          (case rp of
             Answer x \<Rightarrow> (Inr True, w')
           | Status500 \<Rightarrow> (Inr False, w')
           | StatusError \<Rightarrow> (Inr True, w')
           | RequestFailed \<Rightarrow> (Inl RequestException, w')
           | HTTPErrorRaised \<Rightarrow> (Inl HTTPError, w')))"

section \<open>Cluster directory: \<open>_get_vm_by_name\<close>, \<open>_get_vm_by_id\<close>\<close>

text \<open>\<open>for vm in vms\<close> over what \<open>_query\<close> returned: \<open>None\<close> is not iterable.\<close>

definition iter_resources :: "payload option \<Rightarrow> exn + resource list" where
  "iter_resources r = (case r of Some (Resources vms) \<Rightarrow> Inr vms | _ \<Rightarrow> Inl TypeError)"

text \<open>\<open>for vm in vms: if vm["name"] == name: return vm\<close>; an entry without the key
  raises \<open>KeyError\<close>.\<close>

fun scan_name :: "string \<Rightarrow> resource list \<Rightarrow> exn + resource option" where
  "scan_name name [] = Inr None"
| "scan_name name (vm # vms) =
     (case r_name vm of
        Missing \<Rightarrow> Inl KeyError
      | Null \<Rightarrow> scan_name name vms
      | Val n \<Rightarrow> if n = name then Inr (Some vm) else scan_name name vms)"

text \<open>
  The loop of \<open>_get_vm_by_name\<close>. The parameter \<open>max\<close> is overwritten with 60 and
  \<open>message\<close> only decides whether a line is logged, so neither is a parameter here.
\<close>

function get_vm_by_name_loop :: "remote \<Rightarrow> string \<Rightarrow> int \<Rightarrow> nat \<Rightarrow> world \<Rightarrow> resource run" where
  "get_vm_by_name_loop env name interval counter w =
     (if counter < 60 then
        (case query env GET ClusterResources None w of
           (Inl e, w1) \<Rightarrow> (Inl e, w1)
         | (Inr vms, w1) \<Rightarrow>
             (case iter_resources vms of
                Inl e \<Rightarrow> (Inl e, w1)
              | Inr l \<Rightarrow>
                  (case scan_name name l of
                     Inl e \<Rightarrow> (Inl e, w1)
                   | Inr (Some vm) \<Rightarrow> (Inr vm, w1)
                   | Inr None \<Rightarrow>
                       (case sleep interval w1 of
                          (Inl e, w2) \<Rightarrow> (Inl e, w2)
                        | (Inr u, w2) \<Rightarrow> get_vm_by_name_loop env name interval (Suc counter) w2))))
      else (Inl SaltCloudNotFound, w))"
  by pat_completeness auto
termination
  by (relation "measure (\<lambda>(env, name, interval, counter, w). 60 - counter)") auto

definition get_vm_by_name :: "remote \<Rightarrow> string \<Rightarrow> int \<Rightarrow> world \<Rightarrow> resource run" where
  "get_vm_by_name env name interval w = get_vm_by_name_loop env name interval 0 w"

text \<open>\<open>vm["vmid"] == vmid\<close>, where the left side is an integer and the right side is
  whatever \<open>kwargs.get("vmid")\<close> gave: Python's equality holds for the same integer and
  for \<open>True\<close> and \<open>False\<close> against 1 and 0, and for no other value of the model.\<close>

definition vmid_equals :: "int \<Rightarrow> pval option \<Rightarrow> bool" where
  "vmid_equals n v =
     (case v of
        Some (PInt m) \<Rightarrow> n = m
      | Some (PBool b) \<Rightarrow> n = (if b then 1 else 0)
      | _ \<Rightarrow> False)"

text \<open>\<open>_get_vm_by_id\<close>: one fetch, the first entry whose \<open>vmid\<close> equals the argument.\<close>

definition get_vm_by_id :: "remote \<Rightarrow> pval option \<Rightarrow> world \<Rightarrow> resource run" where
  "get_vm_by_id env vmid w =
     and_then (query env GET ClusterResources None w) (\<lambda>vms w1.
       case iter_resources vms of
         Inl e \<Rightarrow> (Inl e, w1)
       | Inr l \<Rightarrow>
           (case find (\<lambda>vm. vmid_equals (r_vmid vm) vmid) l of
              Some vm \<Rightarrow> (Inr vm, w1)
            | None \<Rightarrow> (Inl SaltCloudNotFound, w1)))"

section \<open>Status poller: \<open>_wait_for_vm_status\<close>\<close>

text \<open>\<open>response["status"]\<close>: \<open>None\<close> cannot be subscripted, a dictionary without the
  key raises \<open>KeyError\<close>.\<close>

definition response_status :: "payload option \<Rightarrow> exn + string" where
  "response_status r =
     (case r of
        Some (Current (Some s)) \<Rightarrow> Inr s
      | Some (Current None) \<Rightarrow> Inl KeyError
      | _ \<Rightarrow> Inl TypeError)"

text \<open>
  The function has ten \<open>while time.time() < start_time + timeout\<close> loops of three
  shapes. The first shape fetches the status once per round and looks at nothing:
\<close>

partial_function (option) status_loop_single :: "remote \<Rightarrow> endpoint \<Rightarrow> int \<Rightarrow> world \<Rightarrow> unit run option" where
  "status_loop_single env p deadline w =
     (if clock w < deadline then
        (case query env GET p None w of
           (Inl e, w1) \<Rightarrow> Some (Inl e, w1)
         | (Inr response, w1) \<Rightarrow> status_loop_single env p deadline w1)
      else Some (Inr (), w))"

text \<open>The second shape fetches it twice per round:\<close>

partial_function (option) status_loop_double :: "remote \<Rightarrow> endpoint \<Rightarrow> int \<Rightarrow> world \<Rightarrow> unit run option" where
  "status_loop_double env p deadline w =
     (if clock w < deadline then
        (case query env GET p None w of
           (Inl e, w1) \<Rightarrow> Some (Inl e, w1)
         | (Inr response, w1) \<Rightarrow>
             (case query env GET p None w1 of
                (Inl e, w2) \<Rightarrow> Some (Inl e, w2)
              | (Inr response, w2) \<Rightarrow> status_loop_double env p deadline w2))
      else Some (Inr (), w))"

text \<open>The last loop is the only one that compares and sleeps. Its result is \<open>True\<close>
  for the \<open>return True\<close> inside it and \<open>False\<close> when the loop condition ends it.\<close>

partial_function (option) status_loop_check :: "remote \<Rightarrow> endpoint \<Rightarrow> string \<Rightarrow> int \<Rightarrow> int \<Rightarrow> world \<Rightarrow> bool run option" where
  "status_loop_check env p status deadline interval w =
     (if clock w < deadline then
        (case query env GET p None w of
           (Inl e, w1) \<Rightarrow> Some (Inl e, w1)
         | (Inr response, w1) \<Rightarrow>
             (case response_status response of
                Inl e \<Rightarrow> Some (Inl e, w1)
              | Inr s \<Rightarrow>
                  if s = status then Some (Inr True, w1)
                  else (case sleep interval w1 of
                          (Inl e, w2) \<Rightarrow> Some (Inl e, w2)
                        | (Inr u, w2) \<Rightarrow> status_loop_check env p status deadline interval w2)))
      else Some (Inr False, w))"

declare status_loop_single.simps [code]
declare status_loop_double.simps [code]
declare status_loop_check.simps [code]

text \<open>
  \<open>_wait_for_vm_status\<close>, loop by loop in source order (lines 709 to 756). Each of the
  first eight loops takes a new \<open>start_time\<close>; the ninth and the tenth (the checking
  loop) reuse the \<open>start_time\<close> of the eighth.
\<close>

definition wait_for_vm_status :: "remote \<Rightarrow> string \<Rightarrow> string \<Rightarrow> int \<Rightarrow> int \<Rightarrow> world \<Rightarrow> bool run option" where
  "wait_for_vm_status env name status timeout interval w =
     seq (Some (get_vm_by_name env name (seconds 5) w)) (\<lambda>vm w.
       let p = VmStatusCurrent (r_node vm) (r_type vm) (r_vmid vm) in
       seq (status_loop_single env p (clock w + timeout) w) (\<lambda>u w.
       seq (status_loop_single env p (clock w + timeout) w) (\<lambda>u w.
       seq (status_loop_double env p (clock w + timeout) w) (\<lambda>u w.
       seq (status_loop_single env p (clock w + timeout) w) (\<lambda>u w.
       seq (status_loop_single env p (clock w + timeout) w) (\<lambda>u w.
       seq (status_loop_single env p (clock w + timeout) w) (\<lambda>u w.
       seq (status_loop_single env p (clock w + timeout) w) (\<lambda>u w.
       let start_time = clock w in
       seq (status_loop_double env p (start_time + timeout) w) (\<lambda>u w.
       seq (status_loop_double env p (start_time + timeout) w) (\<lambda>u w.
       seq (status_loop_check env p status (start_time + timeout) interval w) (\<lambda>reached w.
         if reached then Some (Inr True, w)
         else Some (Inl SaltCloudExecutionTimeout, w))))))))))))"

section \<open>Lifecycle controller: \<open>start\<close>, \<open>stop\<close>, \<open>shutdown\<close>, \<open>destroy\<close>\<close>

text \<open>\<open>_set_vm_status\<close>: resolve by name (with the default interval of one second) and
  post the action.\<close>

definition set_vm_status :: "remote \<Rightarrow> string \<Rightarrow> string \<Rightarrow> kwargs option \<Rightarrow> world \<Rightarrow> unit run" where
  "set_vm_status env name status kwargs w =
     and_then (get_vm_by_name env name (seconds 1) w) (\<lambda>vm w1.
     and_then (query env POST (VmStatusAction (r_node vm) (r_type vm) (r_vmid vm) status) kwargs w1) (\<lambda>res w2.
       (Inr (), w2)))"

text \<open>The dictionaries the three actions return.\<close>

definition action_result :: "string \<Rightarrow> string \<Rightarrow> kwargs" where
  "action_result state action =
     [(''success'', PBool True), (''state'', PStr state), (''action'', PStr action)]"

definition start :: "remote \<Rightarrow> string \<Rightarrow> kwargs option \<Rightarrow> string option \<Rightarrow> world \<Rightarrow> kwargs run option" where
  "start env name kwargs call w =
     (if call \<noteq> Some ''action'' then Some (Inl SaltCloudSystemExit, w)
      else
        seq (Some (set_vm_status env name ''start'' kwargs w)) (\<lambda>u w.
        seq (wait_for_vm_status env name ''running'' (seconds 300) (seconds 1) w) (\<lambda>reached w.
          Some (Inr (action_result ''running'' ''start''), w))))"

definition stop :: "remote \<Rightarrow> string \<Rightarrow> kwargs option \<Rightarrow> string option \<Rightarrow> world \<Rightarrow> kwargs run" where
  "stop env name kwargs call w =
     (if call \<noteq> Some ''action'' then (Inl SaltCloudSystemExit, w)
      else
        and_then (set_vm_status env name ''stop'' kwargs w) (\<lambda>u w1.
          (Inr (action_result ''stopped'' ''stop''), w1)))"

definition shutdown :: "remote \<Rightarrow> string \<Rightarrow> kwargs option \<Rightarrow> string option \<Rightarrow> world \<Rightarrow> kwargs run option" where
  "shutdown env name kwargs call w =
     (if call \<noteq> Some ''action'' then Some (Inl SaltCloudSystemExit, w)
      else
        seq (Some (set_vm_status env name ''shutdown'' kwargs w)) (\<lambda>u w.
        seq (wait_for_vm_status env name ''stopped'' (seconds 300) (seconds 1) w) (\<lambda>reached w.
          Some (Inr (action_result ''stopped'' ''shutdown''), w))))"

text \<open>\<open>destroy\<close> passes its own \<open>call\<close> on to \<open>stop\<close>.\<close>

definition destroy :: "remote \<Rightarrow> string \<Rightarrow> kwargs option \<Rightarrow> string option \<Rightarrow> world \<Rightarrow> unit run option" where
  "destroy env name kwargs call w =
     (if call = Some ''function'' then Some (Inl SaltCloudSystemExit, w)
      else
        seq (Some (stop env name kwargs call w)) (\<lambda>stopped w.
        seq (Some (get_vm_by_name env name (seconds 1) (fire_event ''destroying instance'' w))) (\<lambda>vm w.
        seq (wait_for_vm_status env name ''stopped'' (seconds 20) (seconds 2) w) (\<lambda>reached w.
        seq (Some (query env DELETE (VmItem (r_node vm) (r_type vm) (r_vmid vm)) kwargs w)) (\<lambda>res w.
          Some (Inr (), fire_event ''destroyed instance'' w))))))"

section \<open>IP resolver: \<open>_stringlist_to_dictionary\<close>, \<open>_parse_ips\<close>\<close>

text \<open>\<open>str.split(sep)\<close> with a one-character separator, and \<open>str.strip()\<close> on
  characters below 256.\<close>

fun split_sep :: "char \<Rightarrow> string \<Rightarrow> string list" where
  "split_sep c [] = [[]]"
| "split_sep c (x # xs) =
     (let r = split_sep c xs in
      if x = c then [] # r else (x # hd r) # tl r)"

definition is_space :: "char \<Rightarrow> bool" where
  "is_space c = (c \<in> set [CHR 0x09, CHR 0x0A, CHR 0x0B, CHR 0x0C, CHR 0x0D,
                           CHR 0x1C, CHR 0x1D, CHR 0x1E, CHR 0x1F, CHR 0x20,
                           CHR 0x85, CHR 0xA0])"

definition strip :: "string \<Rightarrow> string" where
  "strip s = rev (dropWhile is_space (rev (dropWhile is_space s)))"

text \<open>\<open>dict(...)\<close> of a sequence of lists: each must have exactly two elements, or
  \<open>ValueError\<close> is raised; a later key replaces an earlier one.\<close>

fun dict_of :: "string list list \<Rightarrow> (string \<times> string) list \<Rightarrow> exn + (string \<times> string) list" where
  "dict_of [] d = Inr d"
| "dict_of (kv # rest) d =
     (case kv of
        [k, v] \<Rightarrow> dict_of rest (AList.update k v d)
      | _ \<Rightarrow> Inl ValueError)"

definition stringlist_to_dictionary :: "string \<Rightarrow> exn + (string \<times> string) list" where
  "stringlist_to_dictionary input_string =
     dict_of (map (\<lambda>item. split_sep CHR ''='' (strip item))
                  (filter (\<lambda>item. item \<noteq> []) (split_sep CHR '','' input_string))) []"

text \<open>
  \<open>ipaddress.ip_interface\<close> is the standard library's and is a parameter: applied to
  the argument of \<open>ip_interface\<close> (a string, or \<open>None\<close> when the \<open>ip\<close> key is absent) it
  is \<open>None\<close> if the call raises \<open>ValueError\<close>, and otherwise \<open>is_private\<close> and \<open>str\<close> of
  the \<open>.ip\<close> of the interface.
\<close>

type_synonym iplib = "string option \<Rightarrow> (bool \<times> string) option"

text \<open>
  The loop of \<open>_parse_ips\<close>. The variable \<open>ip_with_netmask\<close> is assigned inside the
  \<open>try\<close> and read in the \<open>except ValueError\<close> handler; \<open>bound\<close> is \<open>None\<close> while it has
  never been assigned, and reading it then raises \<open>UnboundLocalError\<close>.
\<close>

fun parse_ips_loop :: "iplib \<Rightarrow> string list \<Rightarrow> string option option \<Rightarrow> string list \<Rightarrow> string list
    \<Rightarrow> exn + (string list \<times> string list)" where
  "parse_ips_loop ip_interface [] bound private_ips public_ips = Inr (private_ips, public_ips)"
| "parse_ips_loop ip_interface (ip_config # rest) bound private_ips public_ips =
     (case stringlist_to_dictionary ip_config of
        Inl e \<Rightarrow>
          (if e = ValueError then
             (case bound of
                None \<Rightarrow> Inl UnboundLocalError
              | Some v \<Rightarrow> parse_ips_loop ip_interface rest bound private_ips public_ips)
           else Inl e)
      | Inr d \<Rightarrow>
          (let ip_with_netmask = map_of d ''ip'' in
           case ip_interface ip_with_netmask of
             None \<Rightarrow> parse_ips_loop ip_interface rest (Some ip_with_netmask) private_ips public_ips
           | Some (is_private, ip) \<Rightarrow>
               if is_private
               then parse_ips_loop ip_interface rest (Some ip_with_netmask) (private_ips @ [ip]) public_ips
               else parse_ips_loop ip_interface rest (Some ip_with_netmask) private_ips (public_ips @ [ip])))"

definition startswith :: "string \<Rightarrow> string \<Rightarrow> bool" where
  "startswith k p = (take (length p) k = p)"

definition parse_ips :: "iplib \<Rightarrow> (string \<times> string) list \<Rightarrow> string \<Rightarrow> exn + (string list \<times> string list)" where
  "parse_ips ip_interface vm_config vm_type =
     (let ip_configs =
            (if vm_type = ''lxc''
             then map snd (filter (\<lambda>(k, v). startswith k ''net'') vm_config)
             else map snd (filter (\<lambda>(k, v). startswith k ''ipconfig'') vm_config))
      in parse_ips_loop ip_interface ip_configs None [] [])"

section \<open>\<open>list_nodes\<close>\<close>

text \<open>\<open>str\<close> of an integer.\<close>

definition digit_char :: "nat \<Rightarrow> char" where
  "digit_char d = char_of (48 + d)"

function str_nat :: "nat \<Rightarrow> string" where
  "str_nat n = (if n < 10 then [digit_char n] else str_nat (n div 10) @ [digit_char (n mod 10)])"
  by pat_completeness auto
termination
  by (relation "measure id") auto

definition str_int :: "int \<Rightarrow> string" where
  "str_int i = (if i < 0 then CHR ''-'' # str_nat (nat (- i)) else str_nat (nat i))"

record node_info =
  n_id :: string
  n_image :: string
  n_size :: string
  n_state :: string
  n_private_ips :: "string list"
  n_public_ips :: "string list"

text \<open>\<open>vm_config.items()\<close> on what \<open>_query\<close> returned.\<close>

definition config_items :: "payload option \<Rightarrow> exn + (string \<times> string) list" where
  "config_items r = (case r of Some (Config kv) \<Rightarrow> Inr kv | _ \<Rightarrow> Inl AttributeError)"

text \<open>
  The loop of \<open>list_nodes\<close>. The test that skips an entry is
  \<open>not "name" in vm or vm["name"] is not None or vm["name"] == ""\<close>. The result is a
  dictionary keyed by \<open>vm["name"]\<close>, kept in insertion order.
\<close>

fun list_nodes_loop :: "iplib \<Rightarrow> remote \<Rightarrow> resource list \<Rightarrow> (string field \<times> node_info) list \<Rightarrow> world
    \<Rightarrow> (string field \<times> node_info) list run" where
  "list_nodes_loop ip_interface env [] ret w = (Inr ret, w)"
| "list_nodes_loop ip_interface env (vm # vms) ret w =
     (if r_name vm = Missing \<or> r_name vm \<noteq> Null \<or> r_name vm = Val []
      then list_nodes_loop ip_interface env vms ret w
      else
        and_then (query env GET (VmConfig (r_node vm) (r_type vm) (r_vmid vm)) None w) (\<lambda>config w1.
          case config_items config of
            Inl e \<Rightarrow> (Inl e, w1)
          | Inr items \<Rightarrow>
              (case parse_ips ip_interface items (r_type vm) of
                 Inl e \<Rightarrow> (Inl e, w1)
               | Inr (private_ips, public_ips) \<Rightarrow>
                   list_nodes_loop ip_interface env vms
                     (AList.update (r_name vm)
                        \<lparr>n_id = str_int (r_vmid vm), n_image = [], n_size = [],
                         n_state = r_status vm,
                         n_private_ips = private_ips, n_public_ips = public_ips\<rparr> ret) w1)))"

definition list_nodes :: "iplib \<Rightarrow> remote \<Rightarrow> string option \<Rightarrow> world \<Rightarrow> (string field \<times> node_info) list run" where
  "list_nodes ip_interface env call w =
     and_then (query env GET ClusterResources None w) (\<lambda>vms w1.
       case iter_resources vms of
         Inl e \<Rightarrow> (Inl e, w1)
       | Inr l \<Rightarrow> list_nodes_loop ip_interface env l [] w1)"

section \<open>Provisioning orchestrator: \<open>clone\<close>, \<open>_wait_for_ip\<close>, \<open>create\<close>\<close>

text \<open>The path \<open>nodes/{vm['node']}/{vm['type']}/{vmid}/clone\<close> of \<open>clone\<close>, which
  formats the \<open>vmid\<close> of \<open>kwargs\<close>, not that of the entry found.\<close>

definition clone_path :: "resource \<Rightarrow> pval option \<Rightarrow> endpoint" where
  "clone_path vm vmid =
     (case vmid of
        Some (PBool b) \<Rightarrow> VmCloneText (r_node vm) (r_type vm) (if b then ''True'' else ''False'')
      | _ \<Rightarrow> VmClone (r_node vm) (r_type vm) (r_vmid vm))"

text \<open>\<open>clone\<close>: a \<open>kwargs\<close> that is not a dictionary becomes the empty one; the source
  template is found by \<open>kwargs.get("vmid")\<close>; after the request the function has one
  more statement, an unconditional \<open>raise\<close>.\<close>

definition clone :: "remote \<Rightarrow> kwargs option \<Rightarrow> string option \<Rightarrow> world \<Rightarrow> unit run" where
  "clone env kwargs call w =
     (let kwargs = (case kwargs of None \<Rightarrow> [] | Some d \<Rightarrow> d);
          vmid = map_of kwargs ''vmid''
      in
        and_then (get_vm_by_id env vmid w) (\<lambda>vm w1.
        and_then (query env POST (clone_path vm vmid) (Some kwargs) w1) (\<lambda>res w2.
          (Inl SaltCloudExecutionTimeout, w2))))"

text \<open>\<open>sub in s\<close> on two strings: whether \<open>sub\<close> occurs in \<open>s\<close>.\<close>

fun contains :: "string \<Rightarrow> string \<Rightarrow> bool" where
  "contains [] sub = (sub = [])"
| "contains (c # s) sub = (startswith (c # s) sub \<or> contains s sub)"

text \<open>
  \<open>"result" in res\<close> for an answer \<open>res\<close> other than \<open>None\<close>: a key test on a
  dictionary, a substring test on a string, and false on the inventory list, whose
  elements are dictionaries.
\<close>

definition has_result :: "payload \<Rightarrow> bool" where
  "has_result res =
     (case res of
        Agent x \<Rightarrow> x \<noteq> None
      | Scalar s \<Rightarrow> contains s ''result''
      | Config kv \<Rightarrow> map_of kv ''result'' \<noteq> None
      | Current x \<Rightarrow> False
      | Resources l \<Rightarrow> False)"

text \<open>
  The loop of \<open>_wait_for_ip\<close>: \<open>Some res\<close> for the \<open>return res\<close> inside it, \<open>None\<close>
  when the loop condition ends it. The test \<open>"result" in res\<close> there only chooses
  between a log line and a print, but it raises \<open>TypeError\<close> when \<open>res\<close> is \<open>None\<close>.
\<close>

partial_function (option) wait_for_ip_loop :: "remote \<Rightarrow> endpoint \<Rightarrow> int \<Rightarrow> int \<Rightarrow> world \<Rightarrow> payload option run option" where
  "wait_for_ip_loop env p deadline interval w =
     (if clock w < deadline then
        (case query_rawget env p w of
           (Inl e, w1) \<Rightarrow> Some (Inl e, w1)
         | (Inr not500, w1) \<Rightarrow>
             if not500 then
               (case query env GET p None w1 of
                  (Inl e, w2) \<Rightarrow> Some (Inl e, w2)
                | (Inr res, w2) \<Rightarrow>
                    (case res of
                       None \<Rightarrow> Some (Inl TypeError, w2)
                     | Some r \<Rightarrow> Some (Inr (Some r), w2)))
             else
               (case sleep interval w1 of
                  (Inl e, w2) \<Rightarrow> Some (Inl e, w2)
                | (Inr u, w2) \<Rightarrow> wait_for_ip_loop env p deadline interval w2))
      else Some (Inr None, w))"

declare wait_for_ip_loop.simps [code]

definition wait_for_ip :: "remote \<Rightarrow> string \<Rightarrow> int \<Rightarrow> int \<Rightarrow> world \<Rightarrow> payload run option" where
  "wait_for_ip env name timeout interval w =
     seq (Some (get_vm_by_name env name (seconds 1) w)) (\<lambda>vm w.
       let start_time = clock w;
           p = VmAgentInterfaces (r_node vm) (r_type vm) (r_vmid vm)
       in
         seq (wait_for_vm_status env name ''running'' (seconds 300) (seconds 5) w) (\<lambda>reached w.
         seq (wait_for_ip_loop env p (start_time + timeout) interval w) (\<lambda>res w.
           case res of
             Some r \<Rightarrow> Some (Inr r, w)
           | None \<Rightarrow> Some (Inl SaltCloudExecutionTimeout, w))))"

text \<open>The options of one \<open>create\<close> call that the modelled part reads: \<open>vm_["image"]\<close>,
  \<open>vm_["name"]\<close> and \<open>vm_.get("clone")\<close>.\<close>

record profile =
  p_image :: string
  p_name :: string
  p_clone :: "kwargs option"

text \<open>
  The \<open>else\<close> branch of \<open>create\<close> (lines 846 to 865), the creation without clone
  options. \<open>img\<close> is the variable \<open>image\<close> and \<open>plan\<close> is \<open>vm_["create"]\<close>. The ids are collected in inventory order;
  \<open>sorted(tmpvmid)\<close> builds a sorted copy that is bound to nothing, and the new id is
  \<open>tmpvmid[-1] + 1\<close>, which raises \<open>IndexError\<close> on an empty list. An absent result of
  the request leads to \<open>sys.exit()\<close>, which raises \<open>SystemExit\<close>.
\<close>

definition create_fresh :: "remote \<Rightarrow> resource \<Rightarrow> kwargs \<Rightarrow> string \<Rightarrow> world \<Rightarrow> unit run" where
  "create_fresh env img plan newvmname w =
     (let plan = AList.delete ''full'' (AList.update ''name'' (PStr newvmname) plan) in
      and_then (query env GET ClusterResources None w) (\<lambda>vmlist w1.
        case iter_resources vmlist of
          Inl e \<Rightarrow> (Inl e, w1)
        | Inr l \<Rightarrow>
            (let tmpvmid = map r_vmid l;
                 sorted_copy = sort tmpvmid
             in
               if tmpvmid = [] then (Inl IndexError, w1)
               else
                 (let plan = AList.update ''newid'' (PInt (last tmpvmid + 1)) plan in
                  and_then (query env POST (VmClone (r_node img) ''qemu'' (r_vmid img)) (Some plan) w1) (\<lambda>res w2.
                    if res = None then (Inl SystemExit, w2) else (Inr (), w2))))))"

text \<open>
  The two nested loops of lines 895 to 901, which assign \<open>__opts__["ssh_host"]\<close>.
  Missing \<open>hardware-address\<close>, \<open>ip-addresses\<close> or \<open>ip-address\<close> keys raise
  \<open>KeyError\<close>. Neither loop has a \<open>break\<close>.
\<close>

fun select_ipv4 :: "ip_entry list \<Rightarrow> world \<Rightarrow> unit run" where
  "select_ipv4 [] w = (Inr (), w)"
| "select_ipv4 (i # rest) w =
     (if ip_address_type i \<noteq> None \<and> ip_address_type i = Some ''ipv4''
      then (case ip_address i of
              None \<Rightarrow> (Inl KeyError, w)
            | Some a \<Rightarrow> select_ipv4 rest (w\<lparr>ssh_host := Some a\<rparr>))
      else select_ipv4 rest w)"

fun select_ssh_host :: "nic list \<Rightarrow> world \<Rightarrow> unit run" where
  "select_ssh_host [] w = (Inr (), w)"
| "select_ssh_host (nic # rest) w =
     (case hardware_address nic of
        None \<Rightarrow> (Inl KeyError, w)
      | Some mac \<Rightarrow>
          if mac \<noteq> ''00:00:00:00:00:00'' then
            (case ip_addresses nic of
               None \<Rightarrow> (Inl KeyError, w)
             | Some ip \<Rightarrow>
                 (case select_ipv4 ip w of
                    (Inl e, w1) \<Rightarrow> (Inl e, w1)
                  | (Inr u, w1) \<Rightarrow> select_ssh_host rest w1))
          else select_ssh_host rest w)"

text \<open>
  \<open>for nic in res["result"]\<close> and its body, for an answer in which \<open>"result" in res\<close>
  holds. The agent's report is a list of interfaces. A string cannot be subscripted
  with \<open>"result"\<close>; and when \<open>res["result"]\<close> is itself a string, the loop runs over
  its characters, none of which can be subscripted with \<open>"hardware-address"\<close>, so only
  the empty string passes.
\<close>

definition select_from_result :: "payload \<Rightarrow> world \<Rightarrow> unit run" where
  "select_from_result res w =
     (case res of
        Agent (Some result) \<Rightarrow> select_ssh_host result w
      | Config kv \<Rightarrow> (if map_of kv ''result'' = Some [] then (Inr (), w) else (Inl TypeError, w))
      | _ \<Rightarrow> (Inl TypeError, w))"

text \<open>
  \<open>create\<close> from its first line to the end of the selection loops (line 901). What
  follows in the source (the probe of the SSH port, the bootstrap, \<open>show_instance\<close> and
  the final event) calls collaborators outside this module and is not part of the model;
  lemma \<open>create_stops_early\<close> below shows that no run gets that far. The assignments
  to \<open>vm_\<close> of lines 869 to 878 feed only that part and are left out with it.
  The name handed to \<open>start\<close> and to the two waits is \<open>vm_["create"]["name"]\<close>, the
  \<open>vm_["name"]\<close> of the call; \<open>vm\<close> stands for \<open>vm_\<close>.
\<close>

definition create :: "remote \<Rightarrow> profile \<Rightarrow> world \<Rightarrow> unit run option" where
  "create env vm w =
     seq (Some (get_vm_by_name env (p_image vm) (seconds 1) w)) (\<lambda>img w.
     seq (Some (query env GET ClusterNextid None w)) (\<lambda>nextid w.
       let newname = p_name vm;
           plan = [(''node'', PStr (r_node img)), (''vmid'', PInt (r_vmid img)),
                   (''newid'', case nextid of None \<Rightarrow> PNone | Some x \<Rightarrow> PData x),
                   (''full'', PBool True), (''name'', PStr newname)];
           w = fire_event ''starting create'' w;
           clone_options = p_clone vm;
           should_clone = (clone_options \<noteq> None \<and> clone_options \<noteq> Some [])
       in
         seq (Some (if should_clone then clone env clone_options (Some ''function'') w
                    else create_fresh env img plan newname w)) (\<lambda>u w.
         seq (start env newname None (Some ''action'') w) (\<lambda>started w.
         seq (wait_for_vm_status env newname ''running'' (seconds 60) (seconds 2) w) (\<lambda>reached w.
         seq (wait_for_ip env newname (seconds 10) (seconds 2) w) (\<lambda>res w.
           if \<not> has_result res then Some (Inl SaltCloudNotFound, w)
           else Some (select_from_result res w)))))))"

section \<open>Reading a run: requests issued, and what every step preserves\<close>

text \<open>The requests sent between two worlds of one run.\<close>

definition issued :: "world \<Rightarrow> world \<Rightarrow> request list" where
  "issued w w' = drop (length (trace w)) (trace w')"

text \<open>\<open>ext w w'\<close>: from \<open>w\<close> to \<open>w'\<close> the clock has not gone back and the trace has
  only grown, by requests none of which is a \<open>DELETE\<close>. \<open>ok\<close> adds that the step did
  not raise \<open>SaltCloudExecutionTimeout\<close>.\<close>

definition ext :: "world \<Rightarrow> world \<Rightarrow> bool" where
  "ext w w' = (clock w \<le> clock w' \<and> (\<exists>new. trace w' = trace w @ new \<and> DELETE \<notin> meth ` set new))"

definition ok :: "world \<Rightarrow> exn + 'a \<Rightarrow> world \<Rightarrow> bool" where
  "ok w r w' = (ext w w' \<and> r \<noteq> Inl SaltCloudExecutionTimeout)"

section \<open>Concrete clusters for the examples\<close>

text \<open>A world in which nothing has happened yet.\<close>

definition w0 :: world where
  "w0 = \<lparr>clock = 0, trace = [], events = [], ssh_host = None\<rparr>"

text \<open>A cluster with one VM, \<open>vm1\<close>, that reports \<open>running\<close> whatever it is asked to
  do; every exchange takes five seconds.\<close>

definition vm1 :: resource where
  "vm1 = \<lparr>r_name = Val ''vm1'', r_vmid = 100, r_node = ''pve1'', r_type = ''qemu'',
           r_status = ''running''\<rparr>"

definition env_running :: remote where
  "env_running tr t rq =
     (case path rq of
        ClusterResources \<Rightarrow> (Answer (Some (Resources [vm1])), 5000)
      | VmStatusCurrent n ty i \<Rightarrow> (Answer (Some (Current (Some ''running''))), 5000)
      | _ \<Rightarrow> (Answer (Some (Scalar ''UPID:pve1:task'')), 5000))"

text \<open>A cluster with the template \<open>tmpl-a\<close> and two VMs, listed with the ids 100, 105
  and 103 in that order; every exchange takes one second.\<close>

definition tmpl_a :: resource where
  "tmpl_a = \<lparr>r_name = Val ''tmpl-a'', r_vmid = 100, r_node = ''pve1'', r_type = ''qemu'',
              r_status = ''stopped''\<rparr>"

definition web_0 :: resource where
  "web_0 = \<lparr>r_name = Val ''web-0'', r_vmid = 105, r_node = ''pve1'', r_type = ''qemu'',
             r_status = ''running''\<rparr>"

definition db_0 :: resource where
  "db_0 = \<lparr>r_name = Val ''db-0'', r_vmid = 103, r_node = ''pve2'', r_type = ''qemu'',
            r_status = ''running''\<rparr>"

definition env_cluster :: remote where
  "env_cluster tr t rq =
     (case path rq of
        ClusterResources \<Rightarrow> (Answer (Some (Resources [tmpl_a, web_0, db_0])), 1000)
      | ClusterNextid \<Rightarrow> (Answer (Some (Scalar ''101'')), 1000)
      | _ \<Rightarrow> (Answer (Some (Scalar ''UPID:pve1:task'')), 1000))"

text \<open>The same cluster when the connection drops on every clone request.\<close>

definition env_cluster_down :: remote where
  "env_cluster_down tr t rq =
     (case path rq of
        ClusterResources \<Rightarrow> (Answer (Some (Resources [tmpl_a, web_0, db_0])), 1000)
      | ClusterNextid \<Rightarrow> (Answer (Some (Scalar ''101'')), 1000)
      | VmClone n ty i \<Rightarrow> (RequestFailed, 1000)
      | _ \<Rightarrow> (Answer (Some (Scalar ''UPID:pve1:task'')), 1000))"

text \<open>Two profiles for a new VM \<open>web-1\<close> from \<open>tmpl-a\<close>: without and with clone
  options.\<close>

definition web_1 :: profile where
  "web_1 = \<lparr>p_image = ''tmpl-a'', p_name = ''web-1'', p_clone = None\<rparr>"

definition web_1_clone :: profile where
  "web_1_clone = \<lparr>p_image = ''tmpl-a'', p_name = ''web-1'',
                   p_clone = Some [(''newid'', PInt 106), (''node'', PStr ''pve1''),
                                   (''vmid'', PInt 100), (''name'', PStr ''web-1'')]\<rparr>"

text \<open>\<open>vm_["create"]\<close> as \<open>create\<close> has built it for \<open>web_1\<close> when the branch without
  clone options starts.\<close>

definition web_1_plan :: kwargs where
  "web_1_plan = [(''node'', PStr ''pve1''), (''vmid'', PInt 100),
                 (''newid'', PData (Scalar ''101'')), (''full'', PBool True),
                 (''name'', PStr ''web-1'')]"

text \<open>Two reports of the guest agent: the loopback interface and two network cards
  with one IPv4 address each; and the loopback interface and a card with an IPv6
  address only.\<close>

definition lo :: nic where
  "lo = \<lparr>hardware_address = Some ''00:00:00:00:00:00'',
          ip_addresses = Some [\<lparr>ip_address_type = Some ''ipv4'', ip_address = Some ''127.0.0.1''\<rparr>]\<rparr>"

definition report_two_cards :: "nic list" where
  "report_two_cards =
     [lo,
      \<lparr>hardware_address = Some ''bc:24:11:00:00:01'',
        ip_addresses = Some [\<lparr>ip_address_type = Some ''ipv4'', ip_address = Some ''10.0.0.5''\<rparr>,
                             \<lparr>ip_address_type = Some ''ipv6'', ip_address = Some ''fe80::1''\<rparr>]\<rparr>,
      \<lparr>hardware_address = Some ''bc:24:11:00:00:02'',
        ip_addresses = Some [\<lparr>ip_address_type = Some ''ipv4'', ip_address = Some ''192.168.7.9''\<rparr>]\<rparr>]"

definition report_no_ipv4 :: "nic list" where
  "report_no_ipv4 =
     [lo,
      \<lparr>hardware_address = Some ''bc:24:11:00:00:01'',
        ip_addresses = Some [\<lparr>ip_address_type = Some ''ipv6'', ip_address = Some ''fe80::1''\<rparr>]\<rparr>]"

section \<open>Lemmas about single steps and loops\<close>

lemma ext_refl: "ext w w"
  by (simp add: ext_def)

lemma ext_trans: "ext w w1 \<Longrightarrow> ext w1 w2 \<Longrightarrow> ext w w2"
  by (auto simp: ext_def)

lemma ok_after: "ext w w1 \<Longrightarrow> ok w1 r w' \<Longrightarrow> ok w r w'"
  by (auto simp: ok_def intro: ext_trans)

lemma ok_ext: "ok w r w' \<Longrightarrow> ext w w'"
  by (simp add: ok_def)

lemma ext_fire_event: "ext w (fire_event tag w)"
  by (simp add: ext_def fire_event_def)

lemma send_ext: "send env rq w = (rp, w') \<Longrightarrow> meth rq \<noteq> DELETE \<Longrightarrow> ext w w'"
  by (auto simp: send_def ext_def split: prod.splits)

lemma query_ok: "query env m p d w = (r, w') \<Longrightarrow> m \<noteq> DELETE \<Longrightarrow> ok w r w'"
  by (auto simp: query_def ok_def split: prod.splits reply.splits if_splits dest!: send_ext)

lemma sleep_ok: "sleep d w = (r, w') \<Longrightarrow> ok w r w'"
  by (auto simp: sleep_def ext_def ok_def split: if_splits)

lemma scan_name_raises: "scan_name name l = Inl e \<Longrightarrow> e = KeyError"
  by (induction l) (auto split: field.splits if_splits)

lemma iter_resources_raises: "iter_resources x = Inl e \<Longrightarrow> e = TypeError"
  by (auto simp: iter_resources_def split: option.splits payload.splits)

lemma get_vm_by_name_loop_ok:
  "get_vm_by_name_loop env name interval counter w = (r, w') \<Longrightarrow> ok w r w'"
proof (induction env name interval counter w rule: get_vm_by_name_loop.induct)
  case (1 env name interval counter w)
  show ?case
  proof (cases "counter < 60")
    case False
    with "1.prems" show ?thesis by (auto simp: ok_def ext_refl)
  next
    case True
    obtain q w1 where q: "query env GET ClusterResources None w = (q, w1)"
      by (cases "query env GET ClusterResources None w")
    then have o1: "ok w q w1" by (rule query_ok) simp
    then have e1: "ext w w1" by (rule ok_ext)
    show ?thesis
    proof (cases q)
      case (Inl e)
      with "1.prems" True q o1 show ?thesis
        by (subst (asm) get_vm_by_name_loop.simps) (auto simp: ok_def)
    next
      case (Inr vms)
      show ?thesis
      proof (cases "iter_resources vms")
        case (Inl e)
        with "1.prems" True q e1 Inr iter_resources_raises[OF Inl] show ?thesis
          by (subst (asm) get_vm_by_name_loop.simps) (auto simp: ok_def)
      next
        case l: (Inr l)
        show ?thesis
        proof (cases "scan_name name l")
          case (Inl e)
          with "1.prems" True q e1 Inr l scan_name_raises[OF Inl] show ?thesis
            by (subst (asm) get_vm_by_name_loop.simps) (auto simp: ok_def)
        next
          case s: (Inr found)
          show ?thesis
          proof (cases found)
            case (Some vm)
            with "1.prems" True q e1 Inr l s show ?thesis
              by (subst (asm) get_vm_by_name_loop.simps) (auto simp: ok_def)
          next
            case None
            obtain sr w2 where sl: "sleep interval w1 = (sr, w2)" by (cases "sleep interval w1")
            then have o2: "ok w1 sr w2" by (rule sleep_ok)
            show ?thesis
            proof (cases sr)
              case (Inl e)
              with "1.prems" True q Inr l s None sl ok_after[OF e1 o2] show ?thesis
                by (subst (asm) get_vm_by_name_loop.simps) (auto simp: ok_def)
            next
              case u: (Inr u)
              have "get_vm_by_name_loop env name interval (Suc counter) w2 = (r, w')"
                using "1.prems" True q Inr l s None sl u
                by (subst (asm) get_vm_by_name_loop.simps) simp
              then have "ok w2 r w'"
                using "1.IH" True q Inr l s None sl u by simp
              with e1 ok_ext[OF o2] show ?thesis by (blast intro: ok_after)
            qed
          qed
        qed
      qed
    qed
  qed
qed

lemma get_vm_by_name_ok: "get_vm_by_name env name interval w = (r, w') \<Longrightarrow> ok w r w'"
  unfolding get_vm_by_name_def by (rule get_vm_by_name_loop_ok)

lemma get_vm_by_name_stage:
  "Some (get_vm_by_name env name interval w) = Some (r1, w1) \<Longrightarrow>
   ok w r1 w1 \<and> (\<forall>u. r1 = Inr u \<longrightarrow> clock w + 0 \<le> clock w1)"
  by (auto dest: get_vm_by_name_ok simp: ok_def ext_def)

lemma status_loop_single_post:
  assumes "status_loop_single env p deadline w = Some (r, w')"
  shows "ok w r w' \<and> (\<forall>u. r = Inr u \<longrightarrow> deadline \<le> clock w')"
  using assms
proof (induction env p deadline w "(r, w')" rule: status_loop_single.raw_induct[rotated 1, consumes 1])
  case (1 loop env p deadline w)
  show ?case
  proof (cases "clock w < deadline")
    case False
    with 1(2) show ?thesis by (auto simp: ok_def ext_refl)
  next
    case True
    obtain q w1 where q: "query env GET p None w = (q, w1)"
      by (cases "query env GET p None w")
    then have o1: "ok w q w1" by (rule query_ok) simp
    show ?thesis
    proof (cases q)
      case (Inl e)
      with 1(2) True q o1 show ?thesis by (auto simp: ok_def)
    next
      case (Inr x)
      with 1(2) True q have "loop env p deadline w1 = Some (r, w')" by simp
      from 1(1)[OF this] ok_ext[OF o1] show ?thesis by (blast intro: ok_after)
    qed
  qed
qed

lemma status_loop_double_post:
  assumes "status_loop_double env p deadline w = Some (r, w')"
  shows "ok w r w' \<and> (\<forall>u. r = Inr u \<longrightarrow> deadline \<le> clock w')"
  using assms
proof (induction env p deadline w "(r, w')" rule: status_loop_double.raw_induct[rotated 1, consumes 1])
  case (1 loop env p deadline w)
  show ?case
  proof (cases "clock w < deadline")
    case False
    with 1(2) show ?thesis by (auto simp: ok_def ext_refl)
  next
    case True
    obtain q w1 where q: "query env GET p None w = (q, w1)"
      by (cases "query env GET p None w")
    then have o1: "ok w q w1" by (rule query_ok) simp
    obtain q2 w2 where q2: "query env GET p None w1 = (q2, w2)"
      by (cases "query env GET p None w1")
    then have o2: "ok w1 q2 w2" by (rule query_ok) simp
    show ?thesis
    proof (cases q)
      case (Inl e)
      with 1(2) True q o1 show ?thesis by (auto simp: ok_def)
    next
      case x: (Inr x)
      show ?thesis
      proof (cases q2)
        case (Inl e)
        with 1(2) True q q2 x ok_after[OF ok_ext[OF o1] o2] show ?thesis by (auto simp: ok_def)
      next
        case (Inr y)
        with 1(2) True q q2 x have "loop env p deadline w2 = Some (r, w')" by simp
        from 1(1)[OF this] ok_ext[OF o1] ok_ext[OF o2] show ?thesis by (blast intro: ok_after)
      qed
    qed
  qed
qed

lemma status_loop_check_expired:
  "deadline \<le> clock w \<Longrightarrow> status_loop_check env p status deadline interval w = Some (Inr False, w)"
  by (subst status_loop_check.simps) simp

lemma status_loop_double_expired:
  "deadline \<le> clock w \<Longrightarrow> status_loop_double env p deadline w = Some (Inr (), w)"
  by (subst status_loop_double.simps) simp

lemma seq_SomeE:
  assumes "seq m f = Some (r, w')"
  obtains (raise) e where "m = Some (Inl e, w')" and "r = Inl e"
        | (cont) x w1 where "m = Some (Inr x, w1)" and "f x w1 = Some (r, w')"
  using assms by (auto simp: seq_def split: option.splits sum.splits prod.splits)

text \<open>One loop with a fresh start time, followed by the rest.\<close>

lemma seq_stage:
  assumes run: "seq m f = Some (r, w')"
      and loop: "\<And>r1 w1. m = Some (r1, w1) \<Longrightarrow> ok w r1 w1 \<and> (\<forall>u. r1 = Inr u \<longrightarrow> clock w + a \<le> clock w1)"
      and rest: "\<And>u w1. f u w1 = Some (r, w') \<Longrightarrow>
                   ext w1 w' \<and> (\<exists>e. r = Inl e) \<and> (r = Inl SaltCloudExecutionTimeout \<longrightarrow> clock w1 + b \<le> clock w')"
  shows "ext w w' \<and> (\<exists>e. r = Inl e) \<and> (r = Inl SaltCloudExecutionTimeout \<longrightarrow> clock w + (a + b) \<le> clock w')"
  using run
proof (cases rule: seq_SomeE)
  case (raise e)
  with loop[OF raise(1)] show ?thesis by (simp add: ok_def)
next
  case (cont x w1)
  from loop[OF cont(1)] have "ext w w1" "clock w + a \<le> clock w1" by (simp_all add: ok_def)
  with rest[OF cont(2)] show ?thesis by (auto intro: ext_trans)
qed

lemma wait_tail:
  assumes "seq (status_loop_double env p (clock ws + timeout) w)
             (\<lambda>u w. seq (status_loop_double env p (clock ws + timeout) w)
               (\<lambda>u w. seq (status_loop_check env p status (clock ws + timeout) interval w)
                 (\<lambda>reached w. if reached then Some (Inr True, w)
                               else Some (Inl SaltCloudExecutionTimeout, w)))) = Some (r, w')"
  shows "ext w w' \<and> (\<exists>e. r = Inl e) \<and> (r = Inl SaltCloudExecutionTimeout \<longrightarrow> clock ws + timeout \<le> clock w')"
  using assms
proof (cases rule: seq_SomeE)
  case (raise e)
  with status_loop_double_post[OF raise(1)] show ?thesis by (simp add: ok_def)
next
  case (cont u w1)
  from status_loop_double_post[OF cont(1)] have e1: "ext w w1" and d: "clock ws + timeout \<le> clock w1"
    by (simp_all add: ok_def)
  from cont(2) d have "r = Inl SaltCloudExecutionTimeout" "w' = w1"
    by (simp_all add: status_loop_double_expired status_loop_check_expired seq_def)
  with e1 d show ?thesis by simp
qed

lemma wait_for_vm_status_post:
  assumes "wait_for_vm_status env name status timeout interval w = Some (r, w')"
  shows "ext w w' \<and> (\<exists>e. r = Inl e) \<and> (r = Inl SaltCloudExecutionTimeout \<longrightarrow> clock w + 8 * timeout \<le> clock w')"
proof -
  have "ext w w' \<and> (\<exists>e. r = Inl e) \<and>
        (r = Inl SaltCloudExecutionTimeout \<longrightarrow> clock w + (0 + (timeout + (timeout + (timeout + (timeout + (timeout + (timeout + (timeout + timeout)))))))) \<le> clock w')"
    using assms unfolding wait_for_vm_status_def Let_def
    apply (rule seq_stage)
    apply (erule get_vm_by_name_stage)
    apply (erule seq_stage, erule status_loop_single_post)
    apply (erule seq_stage, erule status_loop_single_post)
    apply (erule seq_stage, erule status_loop_double_post)
    apply (erule seq_stage, erule status_loop_single_post)
    apply (erule seq_stage, erule status_loop_single_post)
    apply (erule seq_stage, erule status_loop_single_post)
    apply (erule seq_stage, erule status_loop_single_post)
    apply (erule wait_tail)
    done
  then show ?thesis by simp
qed

lemma ext_issued: "ext w w' \<Longrightarrow> DELETE \<notin> set (map meth (issued w w'))"
  by (auto simp: ext_def issued_def)

lemma seq_Inr [simp]: "seq (Some (Inr x, w)) f = f x w"
  by (simp add: seq_def)

lemma seq_Inl [simp]: "seq (Some (Inl e, w)) f = Some (Inl e, w)"
  by (simp add: seq_def)

lemma and_then_Inr [simp]: "and_then (Inr x, w) f = f x w"
  by (simp add: and_then_def)

lemma and_then_Inl [simp]: "and_then (Inl e, w) f = (Inl e, w)"
  by (simp add: and_then_def)

lemma and_thenE:
  assumes "and_then m f = (r, w')"
  obtains (raise) e where "m = (Inl e, w')" and "r = Inl e"
        | (cont) x w1 where "m = (Inr x, w1)" and "f x w1 = (r, w')"
  using assms by (cases m) (auto simp: and_then_def split: sum.splits)

lemma set_vm_status_ext:
  assumes "set_vm_status env name status kwargs w = (r, w')"
  shows "ext w w'"
  using assms unfolding set_vm_status_def
proof (cases rule: and_thenE)
  case (raise e)
  then show ?thesis by (auto dest: get_vm_by_name_ok simp: ok_def)
next
  case (cont vm w1)
  from cont(1) have e1: "ext w w1" by (auto dest: get_vm_by_name_ok simp: ok_def)
  from cont(2) show ?thesis
  proof (cases rule: and_thenE)
    case (raise e)
    then have "ext w1 w'" by (auto dest: query_ok simp: ok_def)
    with e1 show ?thesis by (rule ext_trans)
  next
    case (cont res w2)
    then have "ext w1 w'" by (auto dest: query_ok simp: ok_def)
    with e1 show ?thesis by (rule ext_trans)
  qed
qed

lemma stop_ext:
  assumes "stop env name kwargs call w = (r, w')"
  shows "ext w w'"
proof (cases "call = Some ''action''")
  case False
  with assms show ?thesis by (simp add: stop_def ext_refl)
next
  case True
  with assms have "and_then (set_vm_status env name ''stop'' kwargs w)
      (\<lambda>u w1. (Inr (action_result ''stopped'' ''stop''), w1)) = (r, w')"
    by (simp add: stop_def)
  then show ?thesis
    by (cases rule: and_thenE) (auto dest: set_vm_status_ext)
qed

lemma destroy_ext:
  assumes "destroy env name kwargs call w = Some (r, w')"
  shows "ext w w'"
proof (cases "call = Some ''function''")
  case True
  with assms show ?thesis by (simp add: destroy_def ext_refl)
next
  case False
  with assms have run: "seq (Some (stop env name kwargs call w)) (\<lambda>stopped w.
        seq (Some (get_vm_by_name env name (seconds 1) (fire_event ''destroying instance'' w))) (\<lambda>vm w.
        seq (wait_for_vm_status env name ''stopped'' (seconds 20) (seconds 2) w) (\<lambda>reached w.
        seq (Some (query env DELETE (VmItem (r_node vm) (r_type vm) (r_vmid vm)) kwargs w)) (\<lambda>res w.
          Some (Inr (), fire_event ''destroyed instance'' w))))) = Some (r, w')"
    by (simp add: destroy_def)
  from run show ?thesis
  proof (cases rule: seq_SomeE)
    case (raise e)
    then show ?thesis by (auto dest: stop_ext)
  next
    case stopped: (cont stopped w1)
    from stopped(1) have e1: "ext w w1" by (auto dest: stop_ext)
    from stopped(2) show ?thesis
    proof (cases rule: seq_SomeE)
      case (raise e)
      then have "ext (fire_event ''destroying instance'' w1) w'"
        by (auto dest: get_vm_by_name_ok simp: ok_def)
      with e1 ext_fire_event show ?thesis by (blast intro: ext_trans)
    next
      case found: (cont vm w2)
      from found(1) have "ext (fire_event ''destroying instance'' w1) w2"
        by (auto dest: get_vm_by_name_ok simp: ok_def)
      with e1 ext_fire_event have e2: "ext w w2" by (blast intro: ext_trans)
      from found(2) show ?thesis
      proof (cases rule: seq_SomeE)
        case (raise e)
        with wait_for_vm_status_post[OF raise(1)] e2 show ?thesis by (blast intro: ext_trans)
      next
        case (cont reached w3)
        with wait_for_vm_status_post[OF cont(1)] show ?thesis by simp
      qed
    qed
  qed
qed

text \<open>Termination of the busy loops on a remote side that takes time and answers.\<close>

lemma query_answered:
  assumes "fst (env (trace w) (clock w) \<lparr>meth = m, path = p, data = d\<rparr>) = Answer x"
  shows "\<exists>w'. query env m p d w = (Inr x, w') \<and> clock w' = clock w + int (snd (env (trace w) (clock w) \<lparr>meth = m, path = p, data = d\<rparr>))
      \<and> trace w' = trace w @ [\<lparr>meth = m, path = p, data = d\<rparr>] \<and> events w' = events w \<and> ssh_host w' = ssh_host w"
  using assms by (auto simp: query_def send_def split: prod.splits)

lemma status_loop_single_returns:
  assumes live: "\<forall>tr t rq. 0 < snd (env tr t rq)"
      and answers: "\<forall>tr t. \<exists>x. fst (env tr t \<lparr>meth = GET, path = p, data = None\<rparr>) = Answer x"
  shows "\<exists>w'. status_loop_single env p deadline w = Some (Inr (), w')"
proof (induction "nat (deadline - clock w)" arbitrary: w rule: less_induct)
  case less
  show ?case
  proof (cases "clock w < deadline")
    case False
    then show ?thesis by (subst status_loop_single.simps) simp
  next
    case True
    from answers obtain x where "fst (env (trace w) (clock w) \<lparr>meth = GET, path = p, data = None\<rparr>) = Answer x"
      by blast
    from query_answered[where env = env and w = w, OF this] live obtain w1
      where q: "query env GET p None w = (Inr x, w1)" and c: "clock w < clock w1"
      by fastforce
    from c True have "nat (deadline - clock w1) < nat (deadline - clock w)" by simp
    from less[OF this] obtain w' where "status_loop_single env p deadline w1 = Some (Inr (), w')" by blast
    with True q show ?thesis by (subst status_loop_single.simps) simp
  qed
qed

lemma status_loop_double_returns:
  assumes live: "\<forall>tr t rq. 0 < snd (env tr t rq)"
      and answers: "\<forall>tr t. \<exists>x. fst (env tr t \<lparr>meth = GET, path = p, data = None\<rparr>) = Answer x"
  shows "\<exists>w'. status_loop_double env p deadline w = Some (Inr (), w')"
proof (induction "nat (deadline - clock w)" arbitrary: w rule: less_induct)
  case less
  show ?case
  proof (cases "clock w < deadline")
    case False
    then show ?thesis by (subst status_loop_double.simps) simp
  next
    case True
    from answers obtain x where "fst (env (trace w) (clock w) \<lparr>meth = GET, path = p, data = None\<rparr>) = Answer x"
      by blast
    from query_answered[where env = env and w = w, OF this] live obtain w1
      where q: "query env GET p None w = (Inr x, w1)" and c: "clock w < clock w1"
      by fastforce
    from answers obtain y where "fst (env (trace w1) (clock w1) \<lparr>meth = GET, path = p, data = None\<rparr>) = Answer y"
      by blast
    from query_answered[where env = env and w = w1, OF this] live obtain w2
      where q2: "query env GET p None w1 = (Inr y, w2)" and c2: "clock w1 < clock w2"
      by fastforce
    from c c2 True have "nat (deadline - clock w2) < nat (deadline - clock w)" by simp
    from less[OF this] obtain w' where "status_loop_double env p deadline w2 = Some (Inr (), w')" by blast
    with True q q2 show ?thesis by (subst status_loop_double.simps) simp
  qed
qed

lemma get_vm_by_name_found:
  assumes "fst (env (trace w) (clock w) \<lparr>meth = GET, path = ClusterResources, data = None\<rparr>) = Answer (Some (Resources vms))"
      and "scan_name name vms = Inr (Some vm)"
  shows "\<exists>w'. get_vm_by_name env name interval w = (Inr vm, w')"
proof -
  from query_answered[where env = env and w = w, OF assms(1)] obtain w1
    where "query env GET ClusterResources None w = (Inr (Some (Resources vms)), w1)" by blast
  with assms(2) show ?thesis
    unfolding get_vm_by_name_def
    by (subst get_vm_by_name_loop.simps) (simp add: iter_resources_def)
qed

lemma wait_for_vm_status_times_out:
  assumes live: "\<forall>tr t rq. 0 < snd (env tr t rq)"
      and inventory: "\<forall>tr t. fst (env tr t \<lparr>meth = GET, path = ClusterResources, data = None\<rparr>) = Answer (Some (Resources vms))"
      and listed: "scan_name name vms = Inr (Some vm)"
      and answers: "\<forall>tr t. \<exists>x. fst (env tr t \<lparr>meth = GET, path = VmStatusCurrent (r_node vm) (r_type vm) (r_vmid vm), data = None\<rparr>) = Answer x"
  shows "\<exists>w'. wait_for_vm_status env name status timeout interval w = Some (Inl SaltCloudExecutionTimeout, w')"
proof -
  let ?p = "VmStatusCurrent (r_node vm) (r_type vm) (r_vmid vm)"
  note single = status_loop_single_returns[OF live answers]
  note double = status_loop_double_returns[OF live answers]
  from inventory listed obtain wa where g: "get_vm_by_name env name (seconds 5) w = (Inr vm, wa)"
    using get_vm_by_name_found by blast
  from single obtain w1 where l1: "status_loop_single env ?p (clock wa + timeout) wa = Some (Inr (), w1)" by blast
  from single obtain w2 where l2: "status_loop_single env ?p (clock w1 + timeout) w1 = Some (Inr (), w2)" by blast
  from double obtain w3 where l3: "status_loop_double env ?p (clock w2 + timeout) w2 = Some (Inr (), w3)" by blast
  from single obtain w4 where l4: "status_loop_single env ?p (clock w3 + timeout) w3 = Some (Inr (), w4)" by blast
  from single obtain w5 where l5: "status_loop_single env ?p (clock w4 + timeout) w4 = Some (Inr (), w5)" by blast
  from single obtain w6 where l6: "status_loop_single env ?p (clock w5 + timeout) w5 = Some (Inr (), w6)" by blast
  from single obtain w7 where l7: "status_loop_single env ?p (clock w6 + timeout) w6 = Some (Inr (), w7)" by blast
  from double obtain w8 where l8: "status_loop_double env ?p (clock w7 + timeout) w7 = Some (Inr (), w8)" by blast
  from status_loop_double_post[OF l8] have d: "clock w7 + timeout \<le> clock w8" by simp
  show ?thesis
    unfolding wait_for_vm_status_def Let_def
    by (simp add: g l1 l2 l3 l4 l5 l6 l7 l8
                  status_loop_double_expired[OF d] status_loop_check_expired[OF d])
qed

lemma list_nodes_loop_skips:
  "\<forall>vm\<in>set vms. r_name vm \<noteq> Null \<Longrightarrow> list_nodes_loop lib env vms ret w = (Inr ret, w)"
  by (induction vms) auto

lemma query_absent:
  assumes "fst (env (trace w) (clock w) \<lparr>meth = POST, path = p, data = d\<rparr>) \<in> {RequestFailed, HTTPErrorRaised, Answer None}"
  shows "\<exists>w'. query env POST p d w = (Inr None, w')"
  using assms by (auto simp: query_def send_def split: prod.splits)

lemma scan_name_nonempty: "scan_name name vms = Inr (Some vm) \<Longrightarrow> vms \<noteq> []"
  by auto

text \<open>\<open>start\<close> never returns normally, and so no run of \<open>create\<close> gets past its call
  of \<open>start\<close> on line 867.\<close>

lemma start_raises:
  assumes "start env name kwargs call w = Some (r, w')"
  shows "\<exists>e. r = Inl e"
proof (cases "call = Some ''action''")
  case False
  with assms show ?thesis by (auto simp: start_def)
next
  case True
  with assms have "seq (Some (set_vm_status env name ''start'' kwargs w)) (\<lambda>u w.
        seq (wait_for_vm_status env name ''running'' (seconds 300) (seconds 1) w) (\<lambda>reached w.
          Some (Inr (action_result ''running'' ''start''), w))) = Some (r, w')"
    by (simp add: start_def)
  then show ?thesis
  proof (cases rule: seq_SomeE)
    case (raise e)
    then show ?thesis by simp
  next
    case (cont u w1)
    from cont(2) show ?thesis
    proof (cases rule: seq_SomeE)
      case (raise e)
      then show ?thesis by simp
    next
      case (cont reached w2)
      with wait_for_vm_status_post[OF cont(1)] show ?thesis by simp
    qed
  qed
qed

lemma create_stops_early:
  assumes "create env vm w = Some (r, w')"
  shows "\<exists>e. r = Inl e"
  using assms unfolding create_def Let_def
  by (elim seq_SomeE) (auto dest: start_raises)

section \<open>The claims\<close>

subsection \<open>Status poller\<close>

text \<open>
  Claim C1 says that a call of \<open>_wait_for_vm_status\<close> which finds the target status
  at its first fetch returns success on that first check, without sleeping and without
  waiting out a timeout. The code does otherwise. In \<open>env_running\<close> the VM \<open>vm1\<close>
  reports \<open>running\<close> at every fetch, and every exchange takes five seconds. The call
  with target \<open>running\<close>, a timeout of 20 seconds and an interval of 2 seconds raises
  \<open>SaltCloudExecutionTimeout\<close> 165 seconds later, after one inventory request and 32
  status requests: the eight loops before the checking loop each poll until their own
  timeout has passed, and the checking loop reuses the start time of the eighth, so its
  condition is false when it is reached.
\<close>

theorem wait_for_vm_status_reached_at_entry:
  "fst (env_running [] 0 \<lparr>meth = GET, path = VmStatusCurrent ''pve1'' ''qemu'' 100, data = None\<rparr>)
     = Answer (Some (Current (Some ''running''))) \<and>
   wait_for_vm_status env_running ''vm1'' ''running'' (seconds 20) (seconds 2) w0
     = Some (Inl SaltCloudExecutionTimeout,
             \<lparr>clock = 165000,
              trace = \<lparr>meth = GET, path = ClusterResources, data = None\<rparr>
                      # replicate 32 \<lparr>meth = GET, path = VmStatusCurrent ''pve1'' ''qemu'' 100, data = None\<rparr>,
              events = [], ssh_host = None\<rparr>)"
  by code_simp

text \<open>
  Claim C7 says that a call whose target status is never observed fails with
  \<open>ExecutionTimeout\<close> after at least \<open>timeout\<close> and at most \<open>timeout + interval\<close>.
  The failure and the lower bound hold, the upper bound does not. On every remote side
  on which an exchange takes time, the inventory lists the VM and the status request is
  answered with a status other than the target, the call raises
  \<open>SaltCloudExecutionTimeout\<close> and at least eight times \<open>timeout\<close> have passed by then.
  With the 20 and 2 seconds of \<open>destroy\<close> that is 160 seconds at least, against the 22
  of the claim.
\<close>

theorem wait_for_vm_status_stuck_elapsed:
  assumes live: "\<forall>tr t rq. 0 < snd (env tr t rq)"
      and inventory: "\<forall>tr t. fst (env tr t \<lparr>meth = GET, path = ClusterResources, data = None\<rparr>)
                        = Answer (Some (Resources vms))"
      and listed: "scan_name name vms = Inr (Some vm)"
      and never: "\<forall>tr t. \<exists>s. fst (env tr t \<lparr>meth = GET, path = VmStatusCurrent (r_node vm) (r_type vm) (r_vmid vm), data = None\<rparr>)
                        = Answer (Some (Current (Some s))) \<and> s \<noteq> status"
  shows "\<exists>w'. wait_for_vm_status env name status timeout interval w
                 = Some (Inl SaltCloudExecutionTimeout, w')
              \<and> clock w + 8 * timeout \<le> clock w'"
proof -
  from never have answers:
    "\<forall>tr t. \<exists>x. fst (env tr t \<lparr>meth = GET, path = VmStatusCurrent (r_node vm) (r_type vm) (r_vmid vm), data = None\<rparr>) = Answer x"
    by metis
  from wait_for_vm_status_times_out[OF live inventory listed answers] obtain w'
    where run: "wait_for_vm_status env name status timeout interval w = Some (Inl SaltCloudExecutionTimeout, w')"
    by blast
  from wait_for_vm_status_post[OF run] have "clock w + 8 * timeout \<le> clock w'" by simp
  with run show ?thesis by blast
qed

theorem wait_for_vm_status_stuck_elapsed_witness:
  "\<exists>w'. wait_for_vm_status env_running ''vm1'' ''stopped'' (seconds 20) (seconds 2) w0
            = Some (Inl SaltCloudExecutionTimeout, w')
         \<and> clock w0 + 160000 \<le> clock w'
         \<and> seconds 20 + seconds 2 < 160000"
proof -
  have live: "\<forall>tr t rq. 0 < snd (env_running tr t rq)"
    by (simp add: env_running_def split: endpoint.splits)
  have inventory: "\<forall>tr t. fst (env_running tr t \<lparr>meth = GET, path = ClusterResources, data = None\<rparr>)
                     = Answer (Some (Resources [vm1]))"
    by (simp add: env_running_def)
  have listed: "scan_name ''vm1'' [vm1] = Inr (Some vm1)"
    by (simp add: vm1_def)
  have never: "\<forall>tr t. \<exists>s. fst (env_running tr t \<lparr>meth = GET, path = VmStatusCurrent (r_node vm1) (r_type vm1) (r_vmid vm1), data = None\<rparr>)
                     = Answer (Some (Current (Some s))) \<and> s \<noteq> ''stopped''"
    by (simp add: env_running_def)
  from wait_for_vm_status_stuck_elapsed[OF live inventory listed never, of "seconds 20" "seconds 2" w0]
  show ?thesis by (simp add: seconds_def)
qed

subsection \<open>Lifecycle controller\<close>

text \<open>
  Claim C6 says that \<open>stop\<close>, called as an action, submits the stop action and then
  waits through the status poller until the status is \<open>stopped\<close>. The code submits the
  action and returns. On \<open>vm1\<close>, which goes on reporting \<open>running\<close>, the call returns
  its success dictionary with \<open>state\<close> \<open>stopped\<close> after two requests, the inventory
  fetch and the stop action, and no request for \<open>status/current\<close>.
\<close>

theorem stop_returns_without_waiting:
  "stop env_running ''vm1'' None (Some ''action'') w0 =
     (Inr [(''success'', PBool True), (''state'', PStr ''stopped''), (''action'', PStr ''stop'')],
      \<lparr>clock = 10000,
       trace = [\<lparr>meth = GET, path = ClusterResources, data = None\<rparr>,
                \<lparr>meth = POST, path = VmStatusAction ''pve1'' ''qemu'' 100 ''stop'', data = None\<rparr>],
       events = [], ssh_host = None\<rparr>)"
  by code_simp

text \<open>
  Claim C3 says of every execution of \<open>destroy(name)\<close> that the \<open>DELETE\<close> request is
  issued only after the stop-and-wait has observed \<open>stopped\<close>, and that on a VM whose
  status never reaches \<open>stopped\<close> the call raises \<open>ExecutionTimeout\<close> and issues no
  \<open>DELETE\<close>. The call as the claim and the docstring of \<open>destroy\<close> write it,
  \<open>destroy("vm1")\<close> or \<open>salt-cloud -d vm_name\<close>, leaves \<open>call\<close> at \<open>None\<close>. The guard
  of \<open>destroy\<close> lets that pass, but line 203 hands the same \<open>call\<close> to \<open>stop\<close>, whose
  guard accepts nothing but \<open>action\<close>. So on \<open>vm1\<close>, which never reports \<open>stopped\<close>,
  and on every other remote side, in every world, the call raises
  \<open>SaltCloudSystemExit\<close> with nothing requested, no event fired and no time passed.
\<close>

theorem destroy_default_call_rejected:
  "destroy env_running ''vm1'' None None w0 = Some (Inl SaltCloudSystemExit, w0) \<and>
   destroy env name kwargs None w = Some (Inl SaltCloudSystemExit, w)"
  by (simp add: destroy_def stop_def)

text \<open>
  Two more facts about \<open>destroy\<close>, for the record of what the code does. No run of
  it that ends has sent a \<open>DELETE\<close> request, whatever the remote side, the calling
  convention and the status of the VM: the wait before the request never returns.
  And called as an action on a remote side on which an exchange takes time, the
  inventory lists the VM, the stop action is accepted and the status request is
  answered, it raises \<open>SaltCloudExecutionTimeout\<close>, also when every answer is
  \<open>stopped\<close>.
\<close>

lemma destroy_never_deletes:
  assumes "destroy env name kwargs call w = Some (r, w')"
  shows "DELETE \<notin> set (map meth (issued w w'))"
  using assms by (intro ext_issued destroy_ext)

lemma destroy_action_times_out:
  assumes live: "\<forall>tr t rq. 0 < snd (env tr t rq)"
      and inventory: "\<forall>tr t. fst (env tr t \<lparr>meth = GET, path = ClusterResources, data = None\<rparr>)
                        = Answer (Some (Resources vms))"
      and listed: "scan_name name vms = Inr (Some vm)"
      and accepted: "\<forall>tr t. \<exists>x. fst (env tr t \<lparr>meth = POST, path = VmStatusAction (r_node vm) (r_type vm) (r_vmid vm) ''stop'', data = kwargs\<rparr>)
                        = Answer x"
      and answers: "\<forall>tr t. \<exists>x. fst (env tr t \<lparr>meth = GET, path = VmStatusCurrent (r_node vm) (r_type vm) (r_vmid vm), data = None\<rparr>)
                        = Answer x"
  shows "\<exists>w'. destroy env name kwargs (Some ''action'') w = Some (Inl SaltCloudExecutionTimeout, w')"
proof -
  from inventory listed obtain w1 where g1: "get_vm_by_name env name (seconds 1) w = (Inr vm, w1)"
    using get_vm_by_name_found by blast
  from accepted obtain x where "fst (env (trace w1) (clock w1)
      \<lparr>meth = POST, path = VmStatusAction (r_node vm) (r_type vm) (r_vmid vm) ''stop'', data = kwargs\<rparr>) = Answer x"
    by blast
  from query_answered[where env = env and w = w1, OF this] obtain w2
    where p: "query env POST (VmStatusAction (r_node vm) (r_type vm) (r_vmid vm) ''stop'') kwargs w1 = (Inr x, w2)"
    by blast
  from g1 p have s: "stop env name kwargs (Some ''action'') w = (Inr (action_result ''stopped'' ''stop''), w2)"
    by (simp add: stop_def set_vm_status_def)
  from inventory listed obtain w3
    where g2: "get_vm_by_name env name (seconds 1) (fire_event ''destroying instance'' w2) = (Inr vm, w3)"
    using get_vm_by_name_found by blast
  from wait_for_vm_status_times_out[OF live inventory listed answers] obtain w4
    where "wait_for_vm_status env name ''stopped'' (seconds 20) (seconds 2) w3 = Some (Inl SaltCloudExecutionTimeout, w4)"
    by blast
  with s g2 show ?thesis
    by (simp add: destroy_def)
qed

subsection \<open>Provisioning orchestrator\<close>

text \<open>
  Claim C2 says that the creation path without clone options computes the new VM id as
  the maximum of the inventory ids plus one, 106 for the ids 100, 105 and 103. The code
  calls \<open>sorted(tmpvmid)\<close> and drops its result, then takes the last id of the
  unsorted list plus one. On the cluster \<open>env_cluster\<close>, whose inventory carries
  exactly these ids in this order, the clone request goes out with \<open>newid\<close> 104.
\<close>

theorem create_fresh_newid_from_last_entry:
  "map r_vmid [tmpl_a, web_0, db_0] = [100, 105, 103] \<and>
   create_fresh env_cluster tmpl_a web_1_plan ''web-1'' w0 =
     (Inr (),
      \<lparr>clock = 2000,
       trace = [\<lparr>meth = GET, path = ClusterResources, data = None\<rparr>,
                \<lparr>meth = POST, path = VmClone ''pve1'' ''qemu'' 100,
                 data = Some [(''node'', PStr ''pve1''), (''vmid'', PInt 100),
                              (''newid'', PInt 104), (''name'', PStr ''web-1'')]\<rparr>],
       events = [], ssh_host = None\<rparr>)"
  by code_simp

text \<open>
  Claim C4 says that on the path with clone options the flow goes on, after the clone
  request has been submitted, to the wait for \<open>running\<close>. The last statement of
  \<open>clone\<close> is an unconditional \<open>raise SaltCloudExecutionTimeout\<close>, so \<open>create\<close> ends
  there. With the profile \<open>web_1_clone\<close> on \<open>env_cluster\<close>, where the clone request is
  answered with a task id, \<open>create\<close> raises \<open>SaltCloudExecutionTimeout\<close> after four
  requests, the last of them the clone request; no start action and no status request
  follow.
\<close>

theorem create_clone_path_aborts:
  "create env_cluster web_1_clone w0 =
     Some (Inl SaltCloudExecutionTimeout,
           \<lparr>clock = 4000,
            trace = [\<lparr>meth = GET, path = ClusterResources, data = None\<rparr>,
                     \<lparr>meth = GET, path = ClusterNextid, data = None\<rparr>,
                     \<lparr>meth = GET, path = ClusterResources, data = None\<rparr>,
                     \<lparr>meth = POST, path = VmClone ''pve1'' ''qemu'' 100,
                      data = Some [(''newid'', PInt 106), (''node'', PStr ''pve1''),
                                   (''vmid'', PInt 100), (''name'', PStr ''web-1'')]\<rparr>],
            events = [''starting create''], ssh_host = None\<rparr>)"
proof -
  let ?w1 = "\<lparr>clock = 1000,
              trace = [\<lparr>meth = GET, path = ClusterResources, data = None\<rparr>],
              events = [], ssh_host = None\<rparr>"
  let ?w2 = "\<lparr>clock = 2000,
              trace = [\<lparr>meth = GET, path = ClusterResources, data = None\<rparr>,
                       \<lparr>meth = GET, path = ClusterNextid, data = None\<rparr>],
              events = [], ssh_host = None\<rparr>"
  have found: "get_vm_by_name env_cluster (p_image web_1_clone) (seconds 1) w0 = (Inr tmpl_a, ?w1)"
    by code_simp
  have nextid: "query env_cluster GET ClusterNextid None ?w1 = (Inr (Some (Scalar ''101'')), ?w2)"
    by code_simp
  have options: "p_clone web_1_clone \<noteq> None" "p_clone web_1_clone \<noteq> Some []"
    by (simp_all add: web_1_clone_def)
  have cloned: "clone env_cluster (p_clone web_1_clone) (Some ''function'') (fire_event ''starting create'' ?w2) =
     (Inl SaltCloudExecutionTimeout,
      \<lparr>clock = 4000,
       trace = [\<lparr>meth = GET, path = ClusterResources, data = None\<rparr>,
                \<lparr>meth = GET, path = ClusterNextid, data = None\<rparr>,
                \<lparr>meth = GET, path = ClusterResources, data = None\<rparr>,
                \<lparr>meth = POST, path = VmClone ''pve1'' ''qemu'' 100,
                 data = Some [(''newid'', PInt 106), (''node'', PStr ''pve1''),
                              (''vmid'', PInt 100), (''name'', PStr ''web-1'')]\<rparr>],
       events = [''starting create''], ssh_host = None\<rparr>)"
    by code_simp
  show ?thesis
    by (simp add: create_def Let_def found nextid options cloned)
qed

text \<open>
  Claim C5 says that \<open>create\<close> drops the interfaces with the all-zero hardware
  address, takes the first IPv4 address of the others in report order, and fails with
  \<open>NotFound\<close> when there is none. The selection loops drop the all-zero interfaces,
  but they have no \<open>break\<close> and no check afterwards: from a report with the addresses
  10.0.0.5 and 192.168.7.9 on two cards they leave the second, the last IPv4 address
  seen, in \<open>ssh_host\<close>; and on a report without an IPv4 address outside the loopback
  interface they end normally with \<open>ssh_host\<close> as it was.
\<close>

theorem select_ssh_host_takes_last_ipv4:
  "select_ssh_host report_two_cards w0 = (Inr (), w0\<lparr>ssh_host := Some ''192.168.7.9''\<rparr>) \<and>
   select_ssh_host report_no_ipv4 w0 = (Inr (), w0)"
  by code_simp

text \<open>
  Claim C10: on the path without clone options, when the clone-style request yields an
  absent result, \<open>create\<close> ends in \<open>sys.exit()\<close>, that is, it raises \<open>SystemExit\<close>
  and no error of the driver's own. Here the inventory is \<open>vms\<close> throughout and holds
  the template \<open>img\<close> under the name of the profile's image, the next-id request is
  answered, the profile has no clone options (none, or an empty dictionary), and the
  clone request fails in transport or is answered with a null \<open>data\<close>.
\<close>

theorem create_fresh_absent_result_exits:
  assumes inventory: "\<forall>tr t. fst (env tr t \<lparr>meth = GET, path = ClusterResources, data = None\<rparr>)
                        = Answer (Some (Resources vms))"
      and template: "scan_name (p_image vm) vms = Inr (Some img)"
      and nextid: "\<forall>tr t. \<exists>x. fst (env tr t \<lparr>meth = GET, path = ClusterNextid, data = None\<rparr>) = Answer x"
      and fresh: "p_clone vm = None \<or> p_clone vm = Some []"
      and absent: "\<forall>tr t d. fst (env tr t \<lparr>meth = POST, path = VmClone (r_node img) ''qemu'' (r_vmid img), data = d\<rparr>)
                      \<in> {RequestFailed, HTTPErrorRaised, Answer None}"
  shows "\<exists>w'. create env vm w = Some (Inl SystemExit, w')"
proof -
  from inventory template obtain w1 where g: "get_vm_by_name env (p_image vm) (seconds 1) w = (Inr img, w1)"
    using get_vm_by_name_found by blast
  from nextid obtain x where "fst (env (trace w1) (clock w1) \<lparr>meth = GET, path = ClusterNextid, data = None\<rparr>) = Answer x"
    by blast
  from query_answered[where env = env and w = w1, OF this] obtain w2
    where n: "query env GET ClusterNextid None w1 = (Inr x, w2)" by blast
  let ?w3 = "fire_event ''starting create'' w2"
  from inventory have "fst (env (trace ?w3) (clock ?w3) \<lparr>meth = GET, path = ClusterResources, data = None\<rparr>)
      = Answer (Some (Resources vms))"
    by blast
  from query_answered[where env = env and w = ?w3, OF this] obtain w4
    where l: "query env GET ClusterResources None ?w3 = (Inr (Some (Resources vms)), w4)" by blast
  from template have ne: "vms \<noteq> []" by (rule scan_name_nonempty)
  have cf: "\<exists>w'. create_fresh env img plan (p_name vm) ?w3 = (Inl SystemExit, w')" for plan
  proof -
    let ?plan = "AList.update ''newid'' (PInt (last (map r_vmid vms) + 1))
                   (AList.delete ''full'' (AList.update ''name'' (PStr (p_name vm)) plan))"
    from absent have "fst (env (trace w4) (clock w4)
        \<lparr>meth = POST, path = VmClone (r_node img) ''qemu'' (r_vmid img), data = Some ?plan\<rparr>)
          \<in> {RequestFailed, HTTPErrorRaised, Answer None}" by blast
    from query_absent[where env = env and w = w4, OF this] obtain w5
      where "query env POST (VmClone (r_node img) ''qemu'' (r_vmid img)) (Some ?plan) w4 = (Inr None, w5)" by blast
    with l ne show ?thesis
      by (simp add: create_fresh_def Let_def iter_resources_def)
  qed
  from cf obtain w' where "create_fresh env img
       [(''node'', PStr (r_node img)), (''vmid'', PInt (r_vmid img)),
        (''newid'', case x of None \<Rightarrow> PNone | Some x \<Rightarrow> PData x),
        (''full'', PBool True), (''name'', PStr (p_name vm))] (p_name vm) ?w3 = (Inl SystemExit, w')"
    by blast
  with g n fresh show ?thesis
    by (auto simp: create_def Let_def)
qed

theorem create_fresh_absent_result_exits_witness:
  "(\<exists>w'. create env_cluster_down web_1 w0 = Some (Inl SystemExit, w')) \<and>
   fst (env_cluster_down [] 0 \<lparr>meth = POST, path = VmClone ''pve1'' ''qemu'' 100, data = None\<rparr>) = RequestFailed"
proof -
  have inventory: "\<forall>tr t. fst (env_cluster_down tr t \<lparr>meth = GET, path = ClusterResources, data = None\<rparr>)
                     = Answer (Some (Resources [tmpl_a, web_0, db_0]))"
    by (simp add: env_cluster_down_def)
  have template: "scan_name (p_image web_1) [tmpl_a, web_0, db_0] = Inr (Some tmpl_a)"
    by (simp add: web_1_def tmpl_a_def)
  have nextid: "\<forall>tr t. \<exists>x. fst (env_cluster_down tr t \<lparr>meth = GET, path = ClusterNextid, data = None\<rparr>) = Answer x"
    by (simp add: env_cluster_down_def)
  have fresh: "p_clone web_1 = None \<or> p_clone web_1 = Some []"
    by (simp add: web_1_def)
  have absent: "\<forall>tr t d. fst (env_cluster_down tr t \<lparr>meth = POST, path = VmClone (r_node tmpl_a) ''qemu'' (r_vmid tmpl_a), data = d\<rparr>)
                     \<in> {RequestFailed, HTTPErrorRaised, Answer None}"
    by (simp add: env_cluster_down_def)
  from create_fresh_absent_result_exits[OF inventory template nextid fresh absent, of w0]
  have exits: "\<exists>w'. create env_cluster_down web_1 w0 = Some (Inl SystemExit, w')" .
  have failed: "fst (env_cluster_down [] 0 \<lparr>meth = POST, path = VmClone ''pve1'' ''qemu'' 100, data = None\<rparr>)
                  = RequestFailed"
    by (simp add: env_cluster_down_def)
  from exits failed show ?thesis by blast
qed

subsection \<open>IP resolver and node listing\<close>

text \<open>
  Claim C8 says that \<open>_parse_ips\<close> classifies well-formed entries as private or
  public and skips and logs every malformed entry, such as \<open>not-an-ip\<close>, with no
  exception reaching its caller. For a configuration whose first address entry is
  \<open>not-an-ip\<close> the code raises: \<open>_stringlist_to_dictionary\<close> raises \<open>ValueError\<close>
  before \<open>ip_with_netmask\<close> has been assigned, and the handler's log call reads that
  variable, which raises \<open>UnboundLocalError\<close>. This holds whatever the address
  library does.
\<close>

theorem parse_ips_malformed_first_entry:
  "stringlist_to_dictionary ''not-an-ip'' = Inl ValueError \<and>
   parse_ips ip_interface [(''ipconfig0'', ''not-an-ip'')] ''qemu'' = Inl UnboundLocalError"
  by (simp add: parse_ips_def startswith_def stringlist_to_dictionary_def strip_def is_space_def)

text \<open>
  Claim C9: when the inventory request is answered with entries that all carry a name
  other than \<open>None\<close>, \<open>list_nodes\<close> returns the empty dictionary; it then sends no
  request but the inventory request itself.
\<close>

theorem list_nodes_named_inventory_empty:
  assumes "fst (env (trace w) (clock w) \<lparr>meth = GET, path = ClusterResources, data = None\<rparr>)
             = Answer (Some (Resources vms))"
      and "\<forall>vm\<in>set vms. \<exists>n. r_name vm = Val n"
  shows "fst (list_nodes ip_interface env call w) = Inr [] \<and>
         issued w (snd (list_nodes ip_interface env call w))
           = [\<lparr>meth = GET, path = ClusterResources, data = None\<rparr>]"
proof -
  from query_answered[where env = env and w = w, OF assms(1)] obtain w1
    where q: "query env GET ClusterResources None w = (Inr (Some (Resources vms)), w1)"
      and t: "trace w1 = trace w @ [\<lparr>meth = GET, path = ClusterResources, data = None\<rparr>]"
    by blast
  from assms(2) have "\<forall>vm\<in>set vms. r_name vm \<noteq> Null" by auto
  then have "list_nodes_loop ip_interface env vms [] w1 = (Inr [], w1)" by (rule list_nodes_loop_skips)
  with q t show ?thesis by (simp add: list_nodes_def iter_resources_def issued_def)
qed

theorem list_nodes_named_inventory_empty_witness:
  "fst (list_nodes (\<lambda>x. None) env_cluster None w0) = Inr [] \<and>
   issued w0 (snd (list_nodes (\<lambda>x. None) env_cluster None w0))
     = [\<lparr>meth = GET, path = ClusterResources, data = None\<rparr>] \<and>
   map r_name [tmpl_a, web_0, db_0] = [Val ''tmpl-a'', Val ''web-0'', Val ''db-0'']"
proof -
  have answered: "fst (env_cluster (trace w0) (clock w0) \<lparr>meth = GET, path = ClusterResources, data = None\<rparr>)
                    = Answer (Some (Resources [tmpl_a, web_0, db_0]))"
    by (simp add: env_cluster_def)
  have named: "\<forall>vm\<in>set [tmpl_a, web_0, db_0]. \<exists>n. r_name vm = Val n"
    by (simp add: tmpl_a_def web_0_def db_0_def)
  from list_nodes_named_inventory_empty[where env = env_cluster and w = w0, OF answered named]
  show ?thesis by (simp add: tmpl_a_def web_0_def db_0_def)
qed

end
